theory Spec2Isabelle
  imports Main
begin

section \<open>JavaScript values and errors\<close>

text \<open>
  The values that reach the modelled functions. Objects and functions are references
  (addresses); their properties live in a store that is passed to the functions that
  read properties.
\<close>

datatype jsval =
    JUndefined
  | JNull
  | JBool bool
  | JNum int
  | JStr string
  | JObject nat
  | JFunction nat

text \<open>
  What can be thrown: the engine's \<open>TypeError\<close>, a failure of the class system to create
  an instance, and whatever code outside these files throws (a getter, a method of the
  toolkit).
\<close>

datatype js_error = TypeError | CreateError | Thrown string



fun isFunction :: "jsval \<Rightarrow> bool" where
  "isFunction (JFunction a) = True"
| "isFunction v = False"

text \<open>
  The property store: \<open>h v k\<close> is the outcome of reading \<open>v[k]\<close> on a value \<open>v\<close> that is
  neither \<open>undefined\<close> nor \<open>null\<close>, own and inherited properties alike, primitives
  included (\<open>(0).toFixed\<close> is a function). A property that does not exist reads as
  \<open>undefined\<close>; a property with a getter reads as what the getter returns or throws.
  Reading a property of \<open>undefined\<close> or \<open>null\<close> throws a \<open>TypeError\<close>.
\<close>

type_synonym heap = "jsval \<Rightarrow> string \<Rightarrow> js_error + jsval"

definition js_get :: "heap \<Rightarrow> jsval \<Rightarrow> string \<Rightarrow> js_error + jsval" where
  "js_get h v k = (if v = JUndefined \<or> v = JNull then Inl TypeError else h v k)"


section \<open>Objects with an identifier\<close>

text \<open>
  An object that answers \<open>getId()\<close>: \<open>oid\<close> is the identity of the JavaScript object,
  \<open>getId\<close> what its \<open>getId()\<close> returns at the time of the call. Two values with the same
  \<open>oid\<close> are the same object, whatever its methods answer at the time.
\<close>

record identified =
  oid :: nat
  getId :: string

section \<open>The keyed collection\<close>

text \<open>
  Modelled from the spec: \<open>Ext.util.Collection\<close> (its \<open>add\<close>, \<open>get\<close> and \<open>remove\<close>), which
  \<open>Ext.direct.Manager\<close> requires and whose source is not among the files at hand. The spec
  describes a simple keyed registry, keyed by an externally supplied identifier, with key
  uniqueness as its invariant. The entries are kept in insertion order as (key, item)
  pairs; the key of an item is computed by the key function given at construction;
  adding an item under a key that is present replaces the entry; \<open>get\<close> looks a key up;
  \<open>remove\<close> takes the item and drops the entry holding that object (the same object, by
  identity).
\<close>

type_synonym ('k, 'a) collection = "('k \<times> 'a) list"

fun Collection_replace :: "'k \<Rightarrow> 'a \<Rightarrow> ('k, 'a) collection \<Rightarrow> ('k, 'a) collection" where
  "Collection_replace k item [] = []"
| "Collection_replace k item ((k', v) # c) =
     (if k' = k then (k, item) # c else (k', v) # Collection_replace k item c)"

definition Collection_add :: "('a \<Rightarrow> 'k) \<Rightarrow> 'a \<Rightarrow> ('k, 'a) collection \<Rightarrow> ('k, 'a) collection" where
  "Collection_add keyFn item c =
     (if keyFn item \<in> set (map fst c) then Collection_replace (keyFn item) item c
      else c @ [(keyFn item, item)])"

definition Collection_get :: "('k, 'a) collection \<Rightarrow> 'k \<Rightarrow> 'a option" where
  "Collection_get c k = map_of c k"

definition Collection_remove ::
  "'a identified_scheme \<Rightarrow> ('k, 'a identified_scheme) collection
     \<Rightarrow> ('k, 'a identified_scheme) collection" where
  "Collection_remove item c = filter (\<lambda>(k, v). oid v \<noteq> oid item) c"

section \<open>Ext.direct.Manager\<close>

subsection \<open>Providers, transactions and events\<close>

text \<open>
  A provider instance is an identified object that also answers \<open>isConnected()\<close>. A
  transaction is known to the manager by its identifier only.
\<close>

record provider = identified +
  isConnected :: bool

type_synonym transaction = identified

text \<open>A provider description that is not an instance: a config object with a \<open>type\<close>.\<close>

record config =
  ctype :: string
  cid :: string

text \<open>
  The argument of \<open>addProvider\<close> is a provider instance (\<open>isProvider\<close> is true) or a config
  object (\<open>isProvider\<close> is undefined). The argument of \<open>getProvider\<close> and \<open>removeProvider\<close> is
  an id string (no \<open>isProvider\<close> property) or a provider instance. The argument of
  \<open>getTransaction\<close> and \<open>removeTransaction\<close> is an id (not an object) or a transaction.
\<close>

datatype provider_arg = Instance provider | Config config

datatype provider_ref = ProviderId string | ProviderInstance provider

datatype transaction_ref = TransactionId string | TransactionObject transaction

text \<open>
  An \<open>Ext.direct.Event\<close>: \<open>ename\<close> is what \<open>getName()\<close> returns (\<open>None\<close> for null or
  undefined), \<open>estatus\<close> what \<open>getStatus()\<close> returns (\<open>None\<close> for a value that is not a
  boolean). What a provider delivers is an event or an array of deliveries.
\<close>

record direct_event =
  ename :: "string option"
  estatus :: "bool option"
  edata :: string

datatype delivery = Event direct_event | EventArray "delivery list"

subsection \<open>The manager's state\<close>

text \<open>
  The calls by which the manager asks another object to do something are recorded in
  order: \<open>provider.connect()\<close>, \<open>provider.on('data', me.onProviderData, me)\<close>,
  \<open>provider.un('data', me.onProviderData, me)\<close>, \<open>me.fireEvent(name, event [, provider])\<close>,
  and the \<open>add\<close> and \<open>remove\<close> calls on the two collections (\<open>remove\<close> is handed
  \<open>undefined\<close> when \<open>removeTransaction\<close> found nothing). Calls that only ask for a
  value (\<open>getId()\<close>, \<open>isConnected()\<close>, \<open>getName()\<close>, \<open>getStatus()\<close>, the collections'
  \<open>get\<close>) are not recorded.
\<close>

datatype effect =
    Call_connect provider
  | Call_on provider string
  | Call_un provider string
  | Call_fireEvent string direct_event "provider option"
  | Call_providers_add provider
  | Call_providers_remove provider
  | Call_transactions_add transaction
  | Call_transactions_remove "transaction option"

record manager =
  transactions :: "(string, transaction) collection"
  providers :: "(string, provider) collection"
  trace :: "effect list"

text \<open>The constructor creates both collections empty, with \<open>getKey\<close> as key function.\<close>

definition getKey :: "'a identified_scheme \<Rightarrow> string" where
  "getKey item = getId item"

definition constructor :: manager where
  "constructor = \<lparr>transactions = [], providers = [], trace = []\<rparr>"

subsection \<open>Providers\<close>

text \<open>
  \<open>Ext.create('direct.' + provider.type + 'provider', provider)\<close> belongs to the class
  system; it is a parameter \<open>create\<close> of the model, which returns the new instance or
  fails.
\<close>

type_synonym creator = "string \<Rightarrow> config \<Rightarrow> js_error + provider"

text \<open>
  Lines 133 to 135 of \<open>addProvider\<close>: a description that is not an instance
  (\<open>!provider.isProvider\<close>) is instantiated from its type.
\<close>

definition instantiate :: "creator \<Rightarrow> provider_arg \<Rightarrow> js_error + provider" where
  "instantiate create a =
     (case a of
        Config c \<Rightarrow> create (''direct.'' @ ctype c @ ''provider'') c
      | Instance p \<Rightarrow> Inr p)"

text \<open>
  Lines 132 to 143 of \<open>addProvider\<close>: the call with at most one argument. With no
  argument \<open>provider\<close> is undefined and reading \<open>provider.isProvider\<close> throws.
\<close>

definition addProvider_single ::
  "creator \<Rightarrow> provider_arg option \<Rightarrow> manager \<Rightarrow> (js_error + provider option) \<times> manager" where
  "addProvider_single create arg me =
     (case arg of
        None \<Rightarrow> (Inl TypeError, me)
      | Some a \<Rightarrow>
          (case instantiate create a of
             Inl e \<Rightarrow> (Inl e, me)
           | Inr provider \<Rightarrow>
               (let me1 = me\<lparr>providers := Collection_add getKey provider (providers me),
                             trace := trace me @ [Call_providers_add provider]\<rparr>;
                    me2 = me1\<lparr>trace := trace me1 @ [Call_on provider ''data'']\<rparr>;
                    me3 = (if \<not> isConnected provider
                           then me2\<lparr>trace := trace me2 @ [Call_connect provider]\<rparr>
                           else me2)
                in (Inr (Some provider), me3))))"

text \<open>
  \<open>addProvider\<close> with its argument list. With more than one argument it calls itself on
  each argument in turn and returns \<open>undefined\<close> (\<open>Inr None\<close>); an exception leaves the
  loop with the state reached so far.
\<close>

function addProvider ::
    "creator \<Rightarrow> provider_arg list \<Rightarrow> manager \<Rightarrow> (js_error + provider option) \<times> manager"
  and addProvider_loop ::
    "creator \<Rightarrow> provider_arg list \<Rightarrow> nat \<Rightarrow> manager \<Rightarrow> (js_error + unit) \<times> manager" where
  "addProvider create args me =
     (if length args > 1 then
        (case addProvider_loop create args 0 me of
           (Inl e, me') \<Rightarrow> (Inl e, me')
         | (Inr u, me') \<Rightarrow> (Inr None, me'))
      else addProvider_single create (case args of [] \<Rightarrow> None | a # as \<Rightarrow> Some a) me)"
| "addProvider_loop create args i me =
     (if i < length args then
        (case addProvider create [args ! i] me of
           (Inl e, me') \<Rightarrow> (Inl e, me')
         | (Inr r, me') \<Rightarrow> addProvider_loop create args (i + 1) me')
      else (Inr (), me))"
  by pat_completeness auto
termination
  by (relation "measure (\<lambda>x. case x of
          Inl (create, args, me) \<Rightarrow> (if length args > 1 then length args + 2 else 0)
        | Inr (create, args, i, me) \<Rightarrow> length args - i + 1)") auto

definition getProvider :: "provider_ref \<Rightarrow> manager \<Rightarrow> provider option" where
  "getProvider ident me =
     (case ident of
        ProviderInstance p \<Rightarrow> Some p
      | ProviderId s \<Rightarrow> Collection_get (providers me) s)"

text \<open>\<open>removeProvider\<close> returns the provider, or \<open>null\<close> (\<open>None\<close>) if it is not found.\<close>

definition removeProvider :: "provider_ref \<Rightarrow> manager \<Rightarrow> provider option \<times> manager" where
  "removeProvider provider me =
     (case (case provider of
              ProviderInstance p \<Rightarrow> Some p
            | ProviderId s \<Rightarrow> Collection_get (providers me) s) of
        Some p \<Rightarrow>
          (let me1 = me\<lparr>trace := trace me @ [Call_un p ''data'']\<rparr>;
               me2 = me1\<lparr>providers := Collection_remove p (providers me1),
                         trace := trace me1 @ [Call_providers_remove p]\<rparr>
           in (Some p, me2))
      | None \<Rightarrow> (None, me))"

subsection \<open>Transactions\<close>

definition addTransaction :: "transaction \<Rightarrow> manager \<Rightarrow> transaction \<times> manager" where
  "addTransaction transaction me =
     (transaction,
      me\<lparr>transactions := Collection_add getKey transaction (transactions me),
         trace := trace me @ [Call_transactions_add transaction]\<rparr>)"

text \<open>\<open>Ext.isObject(transaction) ? transaction : this.transactions.get(transaction)\<close>\<close>

definition getTransaction :: "transaction_ref \<Rightarrow> manager \<Rightarrow> transaction option" where
  "getTransaction transaction me =
     (case transaction of
        TransactionObject t \<Rightarrow> Some t
      | TransactionId s \<Rightarrow> Collection_get (transactions me) s)"

text \<open>
  \<open>removeTransaction\<close> hands what \<open>getTransaction\<close> found to the collection's \<open>remove\<close>
  and returns it; when nothing was found that is \<open>undefined\<close>, which no entry holds.
\<close>

definition removeTransaction :: "transaction_ref \<Rightarrow> manager \<Rightarrow> transaction option \<times> manager" where
  "removeTransaction transaction me =
     (case getTransaction transaction me of
        Some t \<Rightarrow>
          (Some t,
           me\<lparr>transactions := Collection_remove t (transactions me),
              trace := trace me @ [Call_transactions_remove (Some t)]\<rparr>)
      | None \<Rightarrow> (None, me\<lparr>trace := trace me @ [Call_transactions_remove None]\<rparr>))"

subsection \<open>Events\<close>

text \<open>The body of \<open>onProviderData\<close> for one event that is not an array (lines 219 to 227).\<close>

definition onProviderData_event :: "provider \<Rightarrow> direct_event \<Rightarrow> manager \<Rightarrow> manager" where
  "onProviderData_event provider event me =
     (let name = ename event;
          me1 = (if (case name of None \<Rightarrow> False | Some n \<Rightarrow> n \<noteq> [])
                    \<and> name \<noteq> Some ''event'' \<and> name \<noteq> Some ''exception''
                 then me\<lparr>trace := trace me @ [Call_fireEvent (the name) event None]\<rparr>
                 else if estatus event = Some False
                 then me\<lparr>trace := trace me @ [Call_fireEvent ''exception'' event None]\<rparr>
                 else me)
      in me1\<lparr>trace := trace me1 @ [Call_fireEvent ''event'' event (Some provider)]\<rparr>)"

fun onProviderData :: "provider \<Rightarrow> delivery \<Rightarrow> manager \<Rightarrow> manager"
  and onProviderData_loop :: "provider \<Rightarrow> delivery list \<Rightarrow> manager \<Rightarrow> manager" where
  "onProviderData provider (EventArray es) me = onProviderData_loop provider es me"
| "onProviderData provider (Event e) me = onProviderData_event provider e me"
| "onProviderData_loop provider [] me = me"
| "onProviderData_loop provider (e # es) me =
     onProviderData_loop provider es (onProviderData provider e me)"

subsection \<open>parseMethod\<close>



section \<open>Ext.EventManager\<close>

text \<open>
  The deprecated shim calls methods of the toolkit's event system: of the element it is
  given, of what \<open>Ext.get\<close> returns, and of \<open>Ext.Viewport\<close>. The toolkit is not part of
  these files; the model takes from it how a property reads (\<open>property\<close>), what
  \<open>Ext.get(el)\<close> returns or throws, the value of \<open>Ext.Viewport\<close> (undefined before the
  viewport exists), and whether a method that is called returns or throws (\<open>outcome\<close>).
\<close>

record toolkit =
  property :: heap
  Ext_get :: "jsval \<Rightarrow> js_error + jsval"
  Ext_Viewport :: jsval
  outcome :: "jsval \<Rightarrow> string \<Rightarrow> jsval list \<Rightarrow> js_error option"

text \<open>
  A call that was made is recorded with its receiver, method name and arguments, in
  order. An argument the caller leaves out is \<open>undefined\<close>. The
  \<open>Ext.Logger.deprecate(message, level)\<close> calls of the debug build are recorded apart.
\<close>

datatype call = Call jsval string "jsval list"

record page =
  calls :: "call list"
  deprecations :: "(string \<times> nat) list"

text \<open>
  The method call \<open>receiver.m(args)\<close>: reading \<open>receiver.m\<close> throws when the receiver is
  \<open>undefined\<close> or \<open>null\<close> (or a getter throws); calling what was read throws a
  \<open>TypeError\<close> when it is not a function; in both cases no call is made. Otherwise the
  call is made and returns or throws as the method does. The result is the exception
  thrown, if any.
\<close>

definition invoke ::
  "toolkit \<Rightarrow> jsval \<Rightarrow> string \<Rightarrow> jsval list \<Rightarrow> page \<Rightarrow> js_error option \<times> page" where
  "invoke tk receiver m args pg =
     (case js_get (property tk) receiver m of
        Inl e \<Rightarrow> (Some e, pg)
      | Inr f \<Rightarrow>
          if isFunction f
          then (outcome tk receiver m args, pg\<lparr>calls := calls pg @ [Call receiver m args]\<rparr>)
          else (Some TypeError, pg))"

definition deprecate :: "string \<Rightarrow> nat \<Rightarrow> page \<Rightarrow> page" where
  "deprecate msg level pg = pg\<lparr>deprecations := deprecations pg @ [(msg, level)]\<rparr>"

definition addListener ::
  "toolkit \<Rightarrow> jsval \<Rightarrow> jsval \<Rightarrow> jsval \<Rightarrow> jsval \<Rightarrow> jsval \<Rightarrow> page \<Rightarrow> js_error option \<times> page" where
  "addListener tk element eventName fn scope options pg =
     invoke tk element ''on'' [eventName, fn, scope, options]
       (deprecate ''Ext.EventManager.addListener is deprecated, use addListener() directly from an instance of Ext.Element instead'' 2 pg)"

definition removeListener ::
  "toolkit \<Rightarrow> jsval \<Rightarrow> jsval \<Rightarrow> jsval \<Rightarrow> jsval \<Rightarrow> page \<Rightarrow> js_error option \<times> page" where
  "removeListener tk element eventName fn scope pg =
     invoke tk element ''un'' [eventName, fn, scope]
       (deprecate ''Ext.EventManager.removeListener is deprecated, use removeListener() directly from an instance of Ext.Element instead'' 2 pg)"

definition removeAll :: "toolkit \<Rightarrow> jsval \<Rightarrow> page \<Rightarrow> js_error option \<times> page" where
  "removeAll tk element pg =
     (let pg1 = deprecate ''Ext.EventManager.removeAll is deprecated, use clearListeners() directly from an instance of Ext.Element instead'' 3 pg
      in case Ext_get tk element of
           Inl e \<Rightarrow> (Some e, pg1)
         | Inr el \<Rightarrow> invoke tk el ''clearListeners'' [] pg1)"

text \<open>\<open>onDocumentReady\<close> declares no parameter and has no statement besides the debug log.\<close>

definition onDocumentReady :: "toolkit \<Rightarrow> jsval list \<Rightarrow> page \<Rightarrow> js_error option \<times> page" where
  "onDocumentReady tk arguments pg =
     (None,
      deprecate ''Ext.EventManager.onDocumentReady has been removed, please use Ext.onReady instead'' 3 pg)"

definition onWindowResize ::
  "toolkit \<Rightarrow> jsval \<Rightarrow> jsval \<Rightarrow> jsval \<Rightarrow> page \<Rightarrow> js_error option \<times> page" where
  "onWindowResize tk fn scope options pg =
     invoke tk (Ext_Viewport tk) ''on'' [JStr ''resize'', fn, scope, options]
       (deprecate ''Ext.EventManager.onWindowResize is deprecated, attach listener to Ext.Viewport instead, i.e: Ext.Viewport.on('resize', ...)'' 2 pg)"

definition onOrientationChange ::
  "toolkit \<Rightarrow> jsval \<Rightarrow> jsval \<Rightarrow> jsval \<Rightarrow> page \<Rightarrow> js_error option \<times> page" where
  "onOrientationChange tk fn scope options pg =
     invoke tk (Ext_Viewport tk) ''on'' [JStr ''orientationchange'', fn, scope, options]
       (deprecate ''Ext.EventManager.onOrientationChange is deprecated, attach listener to Ext.Viewport instead, i.e: Ext.Viewport.on('orientationchange', ...)'' 2 pg)"

definition unOrientationChange ::
  "toolkit \<Rightarrow> jsval \<Rightarrow> jsval \<Rightarrow> jsval \<Rightarrow> page \<Rightarrow> js_error option \<times> page" where
  "unOrientationChange tk fn scope options pg =
     invoke tk (Ext_Viewport tk) ''un'' [JStr ''orientationchange'', fn, scope, options]
       (deprecate ''Ext.EventManager.unOrientationChange is deprecated, remove listener from Ext.Viewport instead, i.e: Ext.Viewport.un('orientationchange', ...)'' 2 pg)"

text \<open>\<open>Ext.EventManager.on\<close> and \<open>Ext.EventManager.un\<close> are the same functions under a second name.\<close>

definition EventManager_on ::
  "toolkit \<Rightarrow> jsval \<Rightarrow> jsval \<Rightarrow> jsval \<Rightarrow> jsval \<Rightarrow> jsval \<Rightarrow> page \<Rightarrow> js_error option \<times> page" where
  "EventManager_on = addListener"

definition EventManager_un ::
  "toolkit \<Rightarrow> jsval \<Rightarrow> jsval \<Rightarrow> jsval \<Rightarrow> jsval \<Rightarrow> page \<Rightarrow> js_error option \<times> page" where
  "EventManager_un = removeListener"

text \<open>
  A legacy call of the shim, and a script of such calls run in order; an exception ends
  the script.
\<close>

datatype legacy_call =
    AddListener jsval jsval jsval jsval jsval
  | RemoveListener jsval jsval jsval jsval
  | RemoveAll jsval
  | OnDocumentReady "jsval list"
  | OnWindowResize jsval jsval jsval
  | OnOrientationChange jsval jsval jsval
  | UnOrientationChange jsval jsval jsval

fun EventManager :: "toolkit \<Rightarrow> legacy_call \<Rightarrow> page \<Rightarrow> js_error option \<times> page" where
  "EventManager tk (AddListener el n f sc opts) pg = addListener tk el n f sc opts pg"
| "EventManager tk (RemoveListener el n f sc) pg = removeListener tk el n f sc pg"
| "EventManager tk (RemoveAll el) pg = removeAll tk el pg"
| "EventManager tk (OnDocumentReady args) pg = onDocumentReady tk args pg"
| "EventManager tk (OnWindowResize f sc opts) pg = onWindowResize tk f sc opts pg"
| "EventManager tk (OnOrientationChange f sc opts) pg = onOrientationChange tk f sc opts pg"
| "EventManager tk (UnOrientationChange f sc opts) pg = unOrientationChange tk f sc opts pg"


section \<open>Notions used in the properties\<close>

subsection \<open>Registries\<close>

text \<open>
  A registry is well keyed when no two entries share a key and every entry is stored
  under the key its item yields.
\<close>

definition registry_inv :: "('a \<Rightarrow> 'k) \<Rightarrow> ('k, 'a) collection \<Rightarrow> bool" where
  "registry_inv f c \<longleftrightarrow> distinct (map fst c) \<and> (\<forall>(k, v) \<in> set c. k = f v)"

definition manager_inv :: "manager \<Rightarrow> bool" where
  "manager_inv me \<longleftrightarrow>
     registry_inv getKey (providers me) \<and> registry_inv getKey (transactions me)"

text \<open>
  The states of the manager: the one the constructor builds, and every state a call of
  one of its methods leads to from such a state.
\<close>

inductive reachable :: "creator \<Rightarrow> manager \<Rightarrow> bool" for create :: creator where
  reach_constructor: "reachable create constructor"
| reach_addProvider:
    "reachable create me \<Longrightarrow> reachable create (snd (addProvider create args me))"
| reach_removeProvider:
    "reachable create me \<Longrightarrow> reachable create (snd (removeProvider r me))"
| reach_addTransaction:
    "reachable create me \<Longrightarrow> reachable create (snd (addTransaction t me))"
| reach_removeTransaction:
    "reachable create me \<Longrightarrow> reachable create (snd (removeTransaction tr me))"
| reach_onProviderData:
    "reachable create me \<Longrightarrow> reachable create (onProviderData p d me)"

subsection \<open>One call of addProvider per argument\<close>

text \<open>
  The single-argument calls \<open>addProvider(a1); addProvider(a2); ...\<close> made one after the
  other; an exception ends the sequence.
\<close>

fun addProvider_each ::
  "creator \<Rightarrow> provider_arg list \<Rightarrow> manager \<Rightarrow> (js_error + unit) \<times> manager" where
  "addProvider_each create [] me = (Inr (), me)"
| "addProvider_each create (a # as) me =
     (case addProvider create [a] me of
        (Inl e, me') \<Rightarrow> (Inl e, me')
      | (Inr r, me') \<Rightarrow> addProvider_each create as me')"


subsection \<open>Events fired\<close>






subsection \<open>Walking a path\<close>



subsection \<open>What the shim forwards\<close>




section \<open>Properties of the collection\<close>

declare addProvider.simps [simp del] addProvider_loop.simps [simp del]

lemma Collection_replace_keys: "map fst (Collection_replace k x c) = map fst c"
  by (induction c) auto

lemma map_of_Collection_replace:
  "map_of (Collection_replace k x c) k' =
     (if k' = k \<and> k \<in> fst ` set c then Some x else map_of c k')"
proof (induction c)
  case Nil
  show ?case by simp
next
  case (Cons e c)
  obtain a b where e: "e = (a, b)" by (cases e)
  from Cons e show ?case
    by (auto simp: image_iff) force+
qed

lemma Collection_get_add:
  "Collection_get (Collection_add f x c) k = (if k = f x then Some x else Collection_get c k)"
proof (cases "f x \<in> set (map fst c)")
  case True
  then show ?thesis
    by (simp add: Collection_get_def Collection_add_def map_of_Collection_replace)
next
  case False
  then have "map_of c (f x) = None"
    by (simp add: map_of_eq_None_iff)
  with False show ?thesis
    by (auto simp: Collection_get_def Collection_add_def map_add_def split: option.splits)
qed

lemma set_Collection_replace:
  "set (Collection_replace k x c) \<subseteq> insert (k, x) (set c)"
  by (induction c) (auto split: if_splits)

lemma registry_inv_add: "registry_inv f c \<Longrightarrow> registry_inv f (Collection_add f x c)"
  unfolding registry_inv_def Collection_add_def
  using set_Collection_replace [of "f x" x c]
  by (auto simp: Collection_replace_keys)

lemma registry_inv_remove: "registry_inv f c \<Longrightarrow> registry_inv f (Collection_remove x c)"
  unfolding registry_inv_def Collection_remove_def
  by (auto simp: distinct_map_filter)

lemma Collection_get_remove:
  assumes "distinct (map fst c)" and "Collection_get c k = Some x"
  shows "Collection_get (Collection_remove x c) k = None"
proof -
  have "\<And>v. (k, v) \<in> set c \<Longrightarrow> v = x"
    using assms by (simp add: Collection_get_def)
  then have "k \<notin> fst ` set (Collection_remove x c)"
    by (auto simp: Collection_remove_def)
  then show ?thesis
    by (simp add: Collection_get_def map_of_eq_None_iff)
qed

section \<open>Properties of the manager's loops\<close>

lemma addProvider_one: "addProvider create [a] me = addProvider_single create (Some a) me"
  by (simp add: addProvider.simps)

lemma addProvider_loop_each:
  "addProvider_loop create args i me = addProvider_each create (drop i args) me"
proof (induction "length args - i" arbitrary: i me)
  case 0
  then show ?case
    by (simp add: addProvider_loop.simps)
next
  case (Suc n)
  then have i: "i < length args" and n: "n = length args - (i + 1)"
    by simp_all
  from i have d: "drop i args = args ! i # drop (i + 1) args"
    by (simp add: Cons_nth_drop_Suc)
  show ?case
    using i Suc.hyps(1) [OF n]
    by (subst addProvider_loop.simps) (simp add: d split: prod.splits sum.splits)
qed

lemma addProvider_many:
  "1 < length args \<Longrightarrow>
   addProvider create args me =
     (case addProvider_each create args me of
        (Inl e, me') \<Rightarrow> (Inl e, me')
      | (Inr u, me') \<Rightarrow> (Inr None, me'))"
  by (subst addProvider.simps) (simp add: addProvider_loop_each)

section \<open>The registries stay well keyed\<close>

lemma addProvider_single_inv:
  "manager_inv me \<Longrightarrow> manager_inv (snd (addProvider_single create arg me))"
  by (auto simp: addProvider_single_def manager_inv_def Let_def registry_inv_add
           split: option.splits sum.splits)

lemma addProvider_each_inv:
  "manager_inv me \<Longrightarrow> manager_inv (snd (addProvider_each create as me))"
proof (induction as arbitrary: me)
  case Nil
  then show ?case by simp
next
  case (Cons a as)
  have "manager_inv (snd (addProvider create [a] me))"
    using Cons.prems by (simp add: addProvider_one addProvider_single_inv)
  then show ?case
    using Cons.IH Cons.prems
    by (auto split: prod.splits sum.splits)
qed

lemma addProvider_inv:
  "manager_inv me \<Longrightarrow> manager_inv (snd (addProvider create args me))"
proof (cases "1 < length args")
  case True
  assume "manager_inv me"
  then have "manager_inv (snd (addProvider_each create args me))"
    by (rule addProvider_each_inv)
  then show ?thesis
    using True by (auto simp: addProvider_many split: prod.splits sum.splits)
next
  case False
  assume "manager_inv me"
  then show ?thesis
    using False by (subst addProvider.simps) (simp add: addProvider_single_inv)
qed

lemma removeProvider_inv:
  "manager_inv me \<Longrightarrow> manager_inv (snd (removeProvider r me))"
  by (auto simp: removeProvider_def manager_inv_def Let_def registry_inv_remove
           split: option.splits provider_ref.splits)

lemma addTransaction_inv:
  "manager_inv me \<Longrightarrow> manager_inv (snd (addTransaction t me))"
  by (simp add: addTransaction_def manager_inv_def registry_inv_add)

lemma removeTransaction_inv:
  "manager_inv me \<Longrightarrow> manager_inv (snd (removeTransaction r me))"
  by (auto simp: removeTransaction_def manager_inv_def registry_inv_remove
           split: option.splits)

lemma onProviderData_registries:
  "providers (onProviderData p d me) = providers me \<and>
   transactions (onProviderData p d me) = transactions me"
  "providers (onProviderData_loop p ds me) = providers me \<and>
   transactions (onProviderData_loop p ds me) = transactions me"
  by (induction p d me and p ds me rule: onProviderData_onProviderData_loop.induct)
     (simp_all add: onProviderData_event_def Let_def)

lemma reachable_inv: "reachable create me \<Longrightarrow> manager_inv me"
proof (induction rule: reachable.induct)
  case reach_constructor
  show ?case
    by (simp add: manager_inv_def registry_inv_def constructor_def)
next
  case (reach_onProviderData me p d)
  then show ?case
    by (simp add: manager_inv_def onProviderData_registries)
qed (simp_all add: addProvider_inv removeProvider_inv addTransaction_inv removeTransaction_inv)

section \<open>Registering and removing providers\<close>







text \<open>
  C3. When the id string does not identify a registered provider, \<open>removeProvider(id)\<close>
  returns \<open>null\<close> and changes nothing: no provider is removed and no \<open>un('data', ...)\<close>
  is called.
\<close>

theorem removeProvider_unknown_id:
  "getProvider (ProviderId s) me = None \<Longrightarrow> removeProvider (ProviderId s) me = (None, me)"
  by (simp add: getProvider_def removeProvider_def)

theorem removeProvider_unknown_id_witness:
  "getProvider (ProviderId ''b'')
     \<lparr>transactions = [],
      providers = [(''a'', \<lparr>oid = 1, getId = ''a'', isConnected = True\<rparr>)],
      trace = []\<rparr> = None \<and>
   removeProvider (ProviderId ''b'')
     \<lparr>transactions = [],
      providers = [(''a'', \<lparr>oid = 1, getId = ''a'', isConnected = True\<rparr>)],
      trace = []\<rparr> =
   (None,
     \<lparr>transactions = [],
      providers = [(''a'', \<lparr>oid = 1, getId = ''a'', isConnected = True\<rparr>)],
      trace = []\<rparr>)"
proof -
  let ?me = "\<lparr>transactions = [],
      providers = [(''a'', \<lparr>oid = 1, getId = ''a'', isConnected = True\<rparr>)],
      trace = []\<rparr>"
  have h: "getProvider (ProviderId ''b'') ?me = None"
    by (simp add: getProvider_def Collection_get_def)
  show ?thesis
    using h removeProvider_unknown_id [OF h] by simp
qed

text \<open>
  C10. When \<open>removeProvider\<close> is given a provider instance, whether or not that object
  is held by an entry of the registry, and so in particular when it was never added, it
  does not return \<open>null\<close>: it calls \<open>un('data', ...)\<close> on the instance, then calls the
  collection's \<open>remove\<close> with the instance, leaves the registry as that call leaves it,
  and returns the instance.
\<close>

theorem removeProvider_unregistered_instance:
  "fst (removeProvider (ProviderInstance p) me) = Some p \<and>
   trace (snd (removeProvider (ProviderInstance p) me)) =
     trace me @ [Call_un p ''data'', Call_providers_remove p] \<and>
   providers (snd (removeProvider (ProviderInstance p) me)) = Collection_remove p (providers me) \<and>
   transactions (snd (removeProvider (ProviderInstance p) me)) = transactions me"
  by (simp add: removeProvider_def Let_def)

theorem removeProvider_unregistered_instance_witness:
  "oid \<lparr>oid = 2, getId = ''a'', isConnected = False\<rparr> \<notin> oid ` snd ` set (providers
     \<lparr>transactions = [],
      providers = [(''a'', \<lparr>oid = 1, getId = ''a'', isConnected = True\<rparr>)],
      trace = []\<rparr>) \<and>
   fst (removeProvider (ProviderInstance \<lparr>oid = 2, getId = ''a'', isConnected = False\<rparr>)
     \<lparr>transactions = [],
      providers = [(''a'', \<lparr>oid = 1, getId = ''a'', isConnected = True\<rparr>)],
      trace = []\<rparr>) = Some \<lparr>oid = 2, getId = ''a'', isConnected = False\<rparr> \<and>
   trace (snd (removeProvider (ProviderInstance \<lparr>oid = 2, getId = ''a'', isConnected = False\<rparr>)
     \<lparr>transactions = [],
      providers = [(''a'', \<lparr>oid = 1, getId = ''a'', isConnected = True\<rparr>)],
      trace = []\<rparr>)) =
     [Call_un \<lparr>oid = 2, getId = ''a'', isConnected = False\<rparr> ''data'',
      Call_providers_remove \<lparr>oid = 2, getId = ''a'', isConnected = False\<rparr>] \<and>
   providers (snd (removeProvider (ProviderInstance \<lparr>oid = 1, getId = ''a'', isConnected = False\<rparr>)
     \<lparr>transactions = [],
      providers = [(''a'', \<lparr>oid = 1, getId = ''a'', isConnected = True\<rparr>)],
      trace = []\<rparr>)) = []"
  using removeProvider_unregistered_instance
      [of "\<lparr>oid = 2, getId = ''a'', isConnected = False\<rparr>"
        "\<lparr>transactions = [],
          providers = [(''a'', \<lparr>oid = 1, getId = ''a'', isConnected = True\<rparr>)],
          trace = []\<rparr>"]
    removeProvider_unregistered_instance
      [of "\<lparr>oid = 1, getId = ''a'', isConnected = False\<rparr>"
        "\<lparr>transactions = [],
          providers = [(''a'', \<lparr>oid = 1, getId = ''a'', isConnected = True\<rparr>)],
          trace = []\<rparr>"]
  by (simp add: Collection_remove_def)

text \<open>
  C8. A call of \<open>addProvider\<close> with several arguments leaves the manager in the state
  that one single-argument call per argument, in order, leads to, and throws where that
  sequence throws; when nothing is thrown it returns \<open>undefined\<close>, not a provider.
\<close>

theorem addProvider_several:
  "1 < length args \<Longrightarrow>
   addProvider create args me =
     (case addProvider_each create args me of
        (Inl e, me') \<Rightarrow> (Inl e, me')
      | (Inr u, me') \<Rightarrow> (Inr None, me'))"
  by (rule addProvider_many)

theorem addProvider_several_witness:
  "1 < length [Instance \<lparr>oid = 1, getId = ''a'', isConnected = True\<rparr>,
               Instance \<lparr>oid = 2, getId = ''b'', isConnected = False\<rparr>] \<and>
   addProvider (\<lambda>alias c. Inl CreateError)
     [Instance \<lparr>oid = 1, getId = ''a'', isConnected = True\<rparr>,
      Instance \<lparr>oid = 2, getId = ''b'', isConnected = False\<rparr>] constructor =
   (Inr None,
    \<lparr>transactions = [],
     providers = [(''a'', \<lparr>oid = 1, getId = ''a'', isConnected = True\<rparr>),
                  (''b'', \<lparr>oid = 2, getId = ''b'', isConnected = False\<rparr>)],
     trace = [Call_providers_add \<lparr>oid = 1, getId = ''a'', isConnected = True\<rparr>,
              Call_on \<lparr>oid = 1, getId = ''a'', isConnected = True\<rparr> ''data'',
              Call_providers_add \<lparr>oid = 2, getId = ''b'', isConnected = False\<rparr>,
              Call_on \<lparr>oid = 2, getId = ''b'', isConnected = False\<rparr> ''data'',
              Call_connect \<lparr>oid = 2, getId = ''b'', isConnected = False\<rparr>]\<rparr>)"
proof -
  let ?args = "[Instance \<lparr>oid = 1, getId = ''a'', isConnected = True\<rparr>,
               Instance \<lparr>oid = 2, getId = ''b'', isConnected = False\<rparr>]"
  have h: "1 < length ?args"
    by simp
  show ?thesis
    using h addProvider_several [OF h, of "\<lambda>alias c. Inl CreateError" constructor]
    by (simp add: addProvider_one addProvider_single_def instantiate_def Let_def
          Collection_add_def getKey_def constructor_def)
qed

section \<open>The registries and the transactions\<close>

text \<open>
  C5. Both collections of the manager are keyed by \<open>item.getId()\<close>, and in every state
  the manager can reach through \<open>addProvider\<close>, \<open>removeProvider\<close>, \<open>addTransaction\<close>,
  \<open>removeTransaction\<close> (and \<open>onProviderData\<close>) no two entries of a collection share a
  key.
\<close>

theorem registries_keyed_uniquely:
  "reachable create me \<Longrightarrow>
   distinct (map fst (providers me)) \<and> distinct (map fst (transactions me)) \<and>
   (\<forall>(k, v) \<in> set (providers me). k = getId v) \<and>
   (\<forall>(k, v) \<in> set (transactions me). k = getId v)"
  using reachable_inv [of create me]
  by (simp add: manager_inv_def registry_inv_def getKey_def)

theorem registries_keyed_uniquely_witness:
  "reachable (\<lambda>alias c. Inl CreateError)
     (snd (addProvider (\<lambda>alias c. Inl CreateError)
        [Instance \<lparr>oid = 2, getId = ''a'', isConnected = True\<rparr>]
        (snd (addProvider (\<lambda>alias c. Inl CreateError)
           [Instance \<lparr>oid = 1, getId = ''a'', isConnected = True\<rparr>] constructor)))) \<and>
   providers
     (snd (addProvider (\<lambda>alias c. Inl CreateError)
        [Instance \<lparr>oid = 2, getId = ''a'', isConnected = True\<rparr>]
        (snd (addProvider (\<lambda>alias c. Inl CreateError)
           [Instance \<lparr>oid = 1, getId = ''a'', isConnected = True\<rparr>] constructor)))) =
     [(''a'', \<lparr>oid = 2, getId = ''a'', isConnected = True\<rparr>)] \<and>
   distinct (map fst (providers
     (snd (addProvider (\<lambda>alias c. Inl CreateError)
        [Instance \<lparr>oid = 2, getId = ''a'', isConnected = True\<rparr>]
        (snd (addProvider (\<lambda>alias c. Inl CreateError)
           [Instance \<lparr>oid = 1, getId = ''a'', isConnected = True\<rparr>] constructor))))))"
proof -
  let ?create = "(\<lambda>alias c. Inl CreateError) :: creator"
  let ?me = "snd (addProvider ?create
        [Instance \<lparr>oid = 2, getId = ''a'', isConnected = True\<rparr>]
        (snd (addProvider ?create
           [Instance \<lparr>oid = 1, getId = ''a'', isConnected = True\<rparr>] constructor)))"
  have r: "reachable ?create ?me"
    by (intro reachable.intros)
  have p: "providers ?me = [(''a'', \<lparr>oid = 2, getId = ''a'', isConnected = True\<rparr>)]"
    by (simp add: addProvider_one addProvider_single_def instantiate_def Let_def
          Collection_add_def getKey_def constructor_def)
  show ?thesis
    using r p registries_keyed_uniquely [OF r] by simp
qed

text \<open>
  C7. In every reachable state, \<open>addTransaction(t)\<close> returns \<open>t\<close>, after which
  \<open>getTransaction(t.getId())\<close> returns \<open>t\<close>; \<open>removeTransaction(t.getId())\<close> then returns
  \<open>t\<close> and removes it from the transactions collection, after which
  \<open>getTransaction(t.getId())\<close> finds nothing.
\<close>

theorem transaction_round_trip:
  assumes "reachable create me"
  shows "fst (addTransaction t me) = t \<and>
         getTransaction (TransactionId (getId t)) (snd (addTransaction t me)) = Some t \<and>
         fst (removeTransaction (TransactionId (getId t)) (snd (addTransaction t me))) = Some t \<and>
         t \<notin> snd ` set (transactions
                (snd (removeTransaction (TransactionId (getId t)) (snd (addTransaction t me))))) \<and>
         getTransaction (TransactionId (getId t))
           (snd (removeTransaction (TransactionId (getId t)) (snd (addTransaction t me)))) = None"
proof -
  let ?c = "Collection_add getKey t (transactions me)"
  have "registry_inv getKey (transactions me)"
    using reachable_inv [OF assms] by (simp add: manager_inv_def)
  then have d: "distinct (map fst ?c)"
    using registry_inv_add [of getKey "transactions me" t] by (simp add: registry_inv_def)
  have g: "Collection_get ?c (getId t) = Some t"
    by (simp add: Collection_get_add getKey_def)
  have n: "Collection_get (Collection_remove t ?c) (getId t) = None"
    using d g by (rule Collection_get_remove)
  have r: "t \<notin> snd ` set (Collection_remove t ?c)"
    by (auto simp: Collection_remove_def)
  show ?thesis
    using g n r
    by (simp add: addTransaction_def getTransaction_def removeTransaction_def)
qed

theorem transaction_round_trip_witness:
  "reachable (\<lambda>alias c. Inl CreateError)
     (snd (addTransaction \<lparr>oid = 8, getId = ''2''\<rparr> constructor)) \<and>
   getTransaction (TransactionId ''1'')
     (snd (addTransaction \<lparr>oid = 7, getId = ''1''\<rparr>
        (snd (addTransaction \<lparr>oid = 8, getId = ''2''\<rparr> constructor)))) =
     Some \<lparr>oid = 7, getId = ''1''\<rparr> \<and>
   removeTransaction (TransactionId ''1'')
     (snd (addTransaction \<lparr>oid = 7, getId = ''1''\<rparr>
        (snd (addTransaction \<lparr>oid = 8, getId = ''2''\<rparr> constructor)))) =
     (Some \<lparr>oid = 7, getId = ''1''\<rparr>,
      \<lparr>transactions = [(''2'', \<lparr>oid = 8, getId = ''2''\<rparr>)], providers = [],
       trace = [Call_transactions_add \<lparr>oid = 8, getId = ''2''\<rparr>,
                Call_transactions_add \<lparr>oid = 7, getId = ''1''\<rparr>,
                Call_transactions_remove (Some \<lparr>oid = 7, getId = ''1''\<rparr>)]\<rparr>) \<and>
   getTransaction (TransactionId ''1'')
     (snd (removeTransaction (TransactionId ''1'')
        (snd (addTransaction \<lparr>oid = 7, getId = ''1''\<rparr>
           (snd (addTransaction \<lparr>oid = 8, getId = ''2''\<rparr> constructor)))))) = None"
proof -
  let ?create = "(\<lambda>alias c. Inl CreateError) :: creator"
  let ?me = "snd (addTransaction \<lparr>oid = 8, getId = ''2''\<rparr> constructor)"
  have r: "reachable ?create ?me"
    by (intro reachable.intros)
  have e: "removeTransaction (TransactionId ''1'')
     (snd (addTransaction \<lparr>oid = 7, getId = ''1''\<rparr> ?me)) =
     (Some \<lparr>oid = 7, getId = ''1''\<rparr>,
      \<lparr>transactions = [(''2'', \<lparr>oid = 8, getId = ''2''\<rparr>)], providers = [],
       trace = [Call_transactions_add \<lparr>oid = 8, getId = ''2''\<rparr>,
                Call_transactions_add \<lparr>oid = 7, getId = ''1''\<rparr>,
                Call_transactions_remove (Some \<lparr>oid = 7, getId = ''1''\<rparr>)]\<rparr>)"
    by (simp add: removeTransaction_def getTransaction_def addTransaction_def
          Collection_add_def Collection_get_def Collection_remove_def getKey_def
          constructor_def)
  show ?thesis
    using r e transaction_round_trip [OF r, of "\<lparr>oid = 7, getId = ''1''\<rparr>"] by simp
qed

section \<open>Events delivered by a provider\<close>












section \<open>Parsing a direct function\<close>











section \<open>The deprecated event manager\<close>









end
